theory Spec2Isabelle
  imports Main "HOL-Library.AList"
begin

section \<open>The LSM tree cache engine (lsm-tree.js)\<close>

text \<open>
  A shallow embedding of the classes \<open>MemTable\<close>, \<open>SSTable\<close> and \<open>LSMTree\<close>.
  Every engine operation is a function from the engine state (which includes the data
  directory it owns) to a result and the state afterwards.

  What the JavaScript reads from its surroundings is passed in explicitly as an
  environment \<open>env\<close>: the reading of \<open>Date.now()\<close> (one reading for the whole
  operation), the identifiers drawn by \<open>new SSTable\<close> (clock reading followed by
  \<open>Math.random()\<close> digits), and which requests to the \<open>fs\<close> module are rejected.
\<close>

subsection \<open>Entries and JavaScript maps\<close>

type_synonym key = string

text \<open>A stored value is \<open>null\<close> (the deletion marker) or any other JSON payload.\<close>

datatype jsvalue = JNull | JVal string

record entry =
  val :: jsvalue
  expiresAt :: "int option"
  timestamp :: int

text \<open>
  A JavaScript \<open>Map\<close> keeps its keys in insertion order; \<open>set\<close> on a present key
  replaces the value in place, \<open>set\<close> on a new key appends, \<open>delete\<close> removes the key.
\<close>

type_synonym 'a jsmap = "(key \<times> 'a) list"

abbreviation Map_get :: "'a jsmap \<Rightarrow> key \<Rightarrow> 'a option" where
  "Map_get m k \<equiv> map_of m k"

abbreviation Map_set :: "key \<Rightarrow> 'a \<Rightarrow> 'a jsmap \<Rightarrow> 'a jsmap" where
  "Map_set k v m \<equiv> AList.update k v m"

abbreviation Map_delete :: "key \<Rightarrow> 'a jsmap \<Rightarrow> 'a jsmap" where
  "Map_delete k m \<equiv> AList.delete k m"

text \<open>
  The two expiry tests of the source. Both read \<open>entry.expiresAt\<close> for truthiness
  first, so \<open>null\<close> and the number \<open>0\<close> both stand for "never expires".

  \<^item> \<open>entry.expiresAt && Date.now() > entry.expiresAt\<close>
  \<^item> \<open>!entry.expiresAt || Date.now() <= entry.expiresAt\<close>
\<close>

definition expired :: "int \<Rightarrow> entry \<Rightarrow> bool" where
  "expired now e = (case expiresAt e of None \<Rightarrow> False | Some x \<Rightarrow> x \<noteq> 0 \<and> now > x)"

definition live :: "int \<Rightarrow> entry \<Rightarrow> bool" where
  "live now e = (case expiresAt e of None \<Rightarrow> True | Some x \<Rightarrow> x = 0 \<or> now \<le> x)"

subsection \<open>The environment of one operation\<close>

datatype fsop = WriteWAL | WriteSSTable string | Unlink string

record env =
  clock :: int
  fails :: "fsop \<Rightarrow> bool"
  flush_id :: string
  compact_id :: string

datatype error = IoError

datatype outcome = Resolved | Rejected error

subsection \<open>The data directory\<close>

record wal_file =
  wal_timestamp :: int
  wal_memTable :: "entry jsmap"

record sstable_file =
  file_id :: string
  file_createdAt :: int
  file_entries :: "entry jsmap"

record disk =
  wal_json :: "wal_file option"
  sstable_files :: "(string \<times> sstable_file) list"

text \<open>
  \<open>fs.promises.writeFile\<close> and \<open>fs.promises.unlink\<close>. A rejected request leaves the
  directory as it was; what a write that is cut off part-way leaves in its file is not
  modelled.
\<close>

definition writeFile_wal :: "env \<Rightarrow> wal_file \<Rightarrow> disk \<Rightarrow> outcome \<times> disk" where
  "writeFile_wal ev w d =
     (if fails ev WriteWAL then (Rejected IoError, d)
      else (Resolved, d\<lparr>wal_json := Some w\<rparr>))"

definition writeFile_sstable :: "env \<Rightarrow> string \<Rightarrow> sstable_file \<Rightarrow> disk \<Rightarrow> outcome \<times> disk" where
  "writeFile_sstable ev p f d =
     (if fails ev (WriteSSTable p) then (Rejected IoError, d)
      else (Resolved, d\<lparr>sstable_files := AList.update p f (sstable_files d)\<rparr>))"

definition existsSync :: "string \<Rightarrow> disk \<Rightarrow> bool" where
  "existsSync p d = (map_of (sstable_files d) p \<noteq> None)"

definition unlink :: "env \<Rightarrow> string \<Rightarrow> disk \<Rightarrow> outcome \<times> disk" where
  "unlink ev p d =
     (if fails ev (Unlink p) then (Rejected IoError, d)
      else (Resolved, d\<lparr>sstable_files := AList.delete p (sstable_files d)\<rparr>))"

subsection \<open>class MemTable\<close>

record memtable =
  mt_data :: "entry jsmap"
  maxSize :: nat

text \<open>
  \<open>MemTable.put(key, value, ttl)\<close>: \<open>ttl\<close> is \<open>null\<close> or a number; it is read for
  truthiness, so \<open>null\<close> and \<open>0\<close> give \<open>expiresAt = null\<close>. Returns the table and
  whether it is full.
\<close>

definition memtable_put :: "int \<Rightarrow> key \<Rightarrow> jsvalue \<Rightarrow> int option \<Rightarrow> memtable \<Rightarrow> memtable \<times> bool" where
  "memtable_put now k v ttl m =
     (let exp = (case ttl of None \<Rightarrow> None
                 | Some n \<Rightarrow> if n \<noteq> 0 then Some (now + n) else None);
          m' = m\<lparr>mt_data := Map_set k \<lparr>val = v, expiresAt = exp, timestamp = now\<rparr> (mt_data m)\<rparr>
      in (m', length (mt_data m') \<ge> maxSize m'))"

text \<open>\<open>MemTable.get(key)\<close>: an expired entry is removed from the table on the way.\<close>

definition memtable_get :: "int \<Rightarrow> key \<Rightarrow> memtable \<Rightarrow> entry option \<times> memtable" where
  "memtable_get now k m =
     (case Map_get (mt_data m) k of
        None \<Rightarrow> (None, m)
      | Some e \<Rightarrow>
          if expired now e then (None, m\<lparr>mt_data := Map_delete k (mt_data m)\<rparr>)
          else (Some e, m))"

text \<open>
  \<open>MemTable.getAllEntries()\<close>: the live entries, each with its key; the expired ones
  are deleted from the table during the walk.
\<close>

definition memtable_getAllEntries :: "int \<Rightarrow> memtable \<Rightarrow> (key \<times> entry) list \<times> memtable" where
  "memtable_getAllEntries now m =
     (let entries = filter (\<lambda>(k, e). live now e) (mt_data m)
      in (entries, m\<lparr>mt_data := entries\<rparr>))"

definition memtable_size :: "memtable \<Rightarrow> nat" where
  "memtable_size m = length (mt_data m)"

definition memtable_clear :: "memtable \<Rightarrow> memtable" where
  "memtable_clear m = m\<lparr>mt_data := []\<rparr>"

definition toJSON :: "memtable \<Rightarrow> (key \<times> entry) list" where
  "toJSON m = mt_data m"

subsection \<open>class SSTable\<close>

record sstable =
  sst_data :: "entry jsmap"
  createdAt :: int
  filePath :: "string option"
  sst_id :: string

text \<open>\<open>new SSTable(data)\<close> copies the map; \<open>filePath\<close> defaults to \<open>null\<close>.\<close>

definition new_SSTable :: "int \<Rightarrow> string \<Rightarrow> entry jsmap \<Rightarrow> sstable" where
  "new_SSTable now ident d = \<lparr>sst_data = d, createdAt = now, filePath = None, sst_id = ident\<rparr>"

definition sstable_get :: "int \<Rightarrow> key \<Rightarrow> sstable \<Rightarrow> entry option" where
  "sstable_get now k s =
     (case Map_get (sst_data s) k of
        None \<Rightarrow> None
      | Some e \<Rightarrow> if expired now e then None else Some e)"

definition sstable_getAllEntries :: "int \<Rightarrow> sstable \<Rightarrow> (key \<times> entry) list" where
  "sstable_getAllEntries now s = filter (\<lambda>(k, e). live now e) (sst_data s)"

definition sstable_path :: "string \<Rightarrow> string \<Rightarrow> string" where
  "sstable_path dir ident = dir @ ''/sstable_'' @ ident @ ''.json''"

text \<open>
  \<open>saveToDisk(dataDir)\<close>: the path is fixed before the write is attempted, so the
  table keeps it also when the write is rejected.
\<close>

definition saveToDisk :: "env \<Rightarrow> string \<Rightarrow> sstable \<Rightarrow> disk \<Rightarrow> outcome \<times> sstable \<times> disk" where
  "saveToDisk ev dir s d =
     (let p = (case filePath s of None \<Rightarrow> sstable_path dir (sst_id s) | Some q \<Rightarrow> q);
          s' = s\<lparr>filePath := Some p\<rparr>;
          f = \<lparr>file_id = sst_id s, file_createdAt = createdAt s, file_entries = sst_data s\<rparr>
      in case writeFile_sstable ev p f d of (r, d') \<Rightarrow> (r, s', d'))"

definition deleteFromDisk :: "env \<Rightarrow> sstable \<Rightarrow> disk \<Rightarrow> outcome \<times> disk" where
  "deleteFromDisk ev s d =
     (case filePath s of
        None \<Rightarrow> (Resolved, d)
      | Some p \<Rightarrow> if existsSync p d then unlink ev p d else (Resolved, d))"

subsection \<open>class LSMTree\<close>

record lsm =
  memTable :: memtable
  ssTables :: "sstable list"
  maxSSTables :: nat
  defaultTTL :: int
  dataDir :: string
  disk :: disk

text \<open>The engine constructed over a fresh data directory.\<close>

definition new_LSMTree :: "nat \<Rightarrow> nat \<Rightarrow> string \<Rightarrow> lsm" where
  "new_LSMTree memTableMaxSize maxSSTables' dir =
     \<lparr>memTable = \<lparr>mt_data = [], maxSize = memTableMaxSize\<rparr>,
      ssTables = [],
      maxSSTables = maxSSTables',
      defaultTTL = 60000,
      dataDir = dir,
      disk = \<lparr>wal_json = None, sstable_files = []\<rparr>\<rparr>"

text \<open>\<open>saveWAL()\<close>: the \<open>try\<close>/\<open>catch\<close> logs a rejected write and goes on.\<close>

definition saveWAL :: "env \<Rightarrow> lsm \<Rightarrow> lsm" where
  "saveWAL ev t =
     (let walData = \<lparr>wal_timestamp = clock ev, wal_memTable = toJSON (memTable t)\<rparr>
      in case writeFile_wal ev walData (disk t) of
           (Resolved, d) \<Rightarrow> t\<lparr>disk := d\<rparr>
         | (Rejected err, d) \<Rightarrow> t\<lparr>disk := d\<rparr>)"

text \<open>The merge loops of \<open>compact()\<close>: tables oldest first, each in map order.\<close>

fun merge_entries :: "int \<Rightarrow> (key \<times> entry) list \<Rightarrow> entry jsmap \<Rightarrow> entry jsmap" where
  "merge_entries now [] mergedData = mergedData"
| "merge_entries now ((k, e) # rest) mergedData =
     merge_entries now rest
       (if val e \<noteq> JNull \<and> live now e then Map_set k e mergedData else mergedData)"

fun merge_ssTables :: "int \<Rightarrow> sstable list \<Rightarrow> entry jsmap \<Rightarrow> entry jsmap" where
  "merge_ssTables now [] mergedData = mergedData"
| "merge_ssTables now (s # ss) mergedData =
     merge_ssTables now ss (merge_entries now (sst_data s) mergedData)"

text \<open>The loop that deletes the old files; a rejected \<open>unlink\<close> ends it.\<close>

fun delete_old_files :: "env \<Rightarrow> sstable list \<Rightarrow> disk \<Rightarrow> outcome \<times> disk" where
  "delete_old_files ev [] d = (Resolved, d)"
| "delete_old_files ev (s # ss) d =
     (case deleteFromDisk ev s d of
        (Resolved, d') \<Rightarrow> delete_old_files ev ss d'
      | (Rejected err, d') \<Rightarrow> (Rejected err, d'))"

definition compact :: "env \<Rightarrow> lsm \<Rightarrow> outcome \<times> lsm" where
  "compact ev t =
     (if length (ssTables t) \<le> 1 then (Resolved, t)
      else
        let mergedData = merge_ssTables (clock ev) (ssTables t) []
        in case delete_old_files ev (ssTables t) (disk t) of
             (Rejected err, d1) \<Rightarrow> (Rejected err, t\<lparr>disk := d1\<rparr>)
           | (Resolved, d1) \<Rightarrow>
               (case saveToDisk ev (dataDir t) (new_SSTable (clock ev) (compact_id ev) mergedData) d1 of
                  (Rejected err, s, d2) \<Rightarrow> (Rejected err, t\<lparr>disk := d2\<rparr>)
                | (Resolved, compactedSSTable, d2) \<Rightarrow>
                    (Resolved, t\<lparr>disk := d2, ssTables := [compactedSSTable]\<rparr>)))"

definition flush :: "env \<Rightarrow> lsm \<Rightarrow> outcome \<times> lsm" where
  "flush ev t =
     (if memtable_size (memTable t) = 0 then (Resolved, t)
      else
        case saveToDisk ev (dataDir t)
               (new_SSTable (clock ev) (flush_id ev) (mt_data (memTable t))) (disk t) of
          (Rejected err, s, d1) \<Rightarrow> (Rejected err, t\<lparr>disk := d1\<rparr>)
        | (Resolved, ssTable, d1) \<Rightarrow>
            let t1 = t\<lparr>disk := d1, ssTables := ssTables t @ [ssTable],
                       memTable := memtable_clear (memTable t)\<rparr>;
                t2 = saveWAL ev t1
            in if length (ssTables t2) > maxSSTables t2 then compact ev t2
               else (Resolved, t2))"

text \<open>
  The \<open>ttl\<close> argument of \<open>put(key, value, ttl = this.defaultTTL)\<close>: left out
  (\<open>undefined\<close>, which takes the default), \<open>null\<close>, or a number.
\<close>

datatype ttl_arg = Undefined | TNull | TNum int

fun ttl_param :: "int \<Rightarrow> ttl_arg \<Rightarrow> int option" where
  "ttl_param dflt Undefined = Some dflt"
| "ttl_param dflt TNull = None"
| "ttl_param dflt (TNum n) = Some n"

definition put :: "env \<Rightarrow> key \<Rightarrow> jsvalue \<Rightarrow> ttl_arg \<Rightarrow> lsm \<Rightarrow> outcome \<times> lsm" where
  "put ev k v ttl t =
     (case memtable_put (clock ev) k v (ttl_param (defaultTTL t) ttl) (memTable t) of
        (m, shouldFlush) \<Rightarrow>
          let t1 = saveWAL ev (t\<lparr>memTable := m\<rparr>)
          in if shouldFlush then flush ev t1 else (Resolved, t1))"

text \<open>The loop of \<open>get\<close> over the tables, called on the list newest first.\<close>

fun get_ssTables :: "int \<Rightarrow> key \<Rightarrow> sstable list \<Rightarrow> entry option" where
  "get_ssTables now k [] = None"
| "get_ssTables now k (s # ss) =
     (case sstable_get now k s of Some e \<Rightarrow> Some e | None \<Rightarrow> get_ssTables now k ss)"

text \<open>
  \<open>get(key)\<close> returns the entry object or \<open>null\<close> (\<open>None\<close>); an entry object is
  truthy whatever its \<open>value\<close> field holds.
\<close>

definition get :: "env \<Rightarrow> key \<Rightarrow> lsm \<Rightarrow> entry option \<times> lsm" where
  "get ev k t =
     (case memtable_get (clock ev) k (memTable t) of
        (Some e, m) \<Rightarrow> (Some e, t\<lparr>memTable := m\<rparr>)
      | (None, m) \<Rightarrow> (get_ssTables (clock ev) k (rev (ssTables t)), t\<lparr>memTable := m\<rparr>))"

definition delete :: "env \<Rightarrow> key \<Rightarrow> lsm \<Rightarrow> outcome \<times> lsm" where
  "delete ev k t =
     (case memtable_put (clock ev) k JNull None (memTable t) of
        (m, shouldFlush) \<Rightarrow> (Resolved, saveWAL ev (t\<lparr>memTable := m\<rparr>)))"

text \<open>The two loops of \<open>getAllEntries()\<close>.\<close>

fun add_entries :: "(key \<times> entry) list \<Rightarrow> entry jsmap \<Rightarrow> entry jsmap" where
  "add_entries [] allEntries = allEntries"
| "add_entries ((k, e) # rest) allEntries = add_entries rest (Map_set k e allEntries)"

fun add_ssTables :: "int \<Rightarrow> sstable list \<Rightarrow> entry jsmap \<Rightarrow> entry jsmap" where
  "add_ssTables now [] allEntries = allEntries"
| "add_ssTables now (s # ss) allEntries =
     add_ssTables now ss (add_entries (sstable_getAllEntries now s) allEntries)"

fun apply_memtable :: "(key \<times> entry) list \<Rightarrow> entry jsmap \<Rightarrow> entry jsmap" where
  "apply_memtable [] allEntries = allEntries"
| "apply_memtable ((k, e) # rest) allEntries =
     apply_memtable rest
       (if val e \<noteq> JNull then Map_set k e allEntries else Map_delete k allEntries)"

text \<open>
  \<open>getAllEntries()\<close> returns the objects \<open>{key, ...entry}\<close> collected in
  \<open>allEntries\<close>, here as pairs of key and entry.
\<close>

definition getAllEntries :: "env \<Rightarrow> lsm \<Rightarrow> (key \<times> entry) list \<times> lsm" where
  "getAllEntries ev t =
     (let allEntries = add_ssTables (clock ev) (ssTables t) []
      in case memtable_getAllEntries (clock ev) (memTable t) of
           (entries, m) \<Rightarrow> (apply_memtable entries allEntries, t\<lparr>memTable := m\<rparr>))"

subsection \<open>Post-states and predicates used in the statements\<close>

text \<open>The WAL on disk, when present, holds the pairs of the current MemTable.\<close>

definition wal_matches :: "lsm \<Rightarrow> bool" where
  "wal_matches t =
     (case wal_json (disk t) of None \<Rightarrow> True
      | Some w \<Rightarrow> wal_memTable w = mt_data (memTable t))"

text \<open>
  The state a flush is meant to reach before compaction is considered: the MemTable's
  pairs sealed into a new table created at the clock reading, its file written, the
  table appended to the list, the MemTable cleared, the WAL rewritten as empty.
\<close>

definition sealed :: "env \<Rightarrow> lsm \<Rightarrow> lsm" where
  "sealed ev t =
     t\<lparr>ssTables := ssTables t @
         [\<lparr>sst_data = mt_data (memTable t), createdAt = clock ev,
           filePath = Some (sstable_path (dataDir t) (flush_id ev)), sst_id = flush_id ev\<rparr>],
       memTable := (memTable t)\<lparr>mt_data := []\<rparr>,
       disk := (disk t)
         \<lparr>sstable_files :=
            AList.update (sstable_path (dataDir t) (flush_id ev))
              \<lparr>file_id = flush_id ev, file_createdAt = clock ev,
               file_entries = mt_data (memTable t)\<rparr>
              (sstable_files (disk t)),
          wal_json := Some \<lparr>wal_timestamp = clock ev, wal_memTable = []\<rparr>\<rparr>\<rparr>"

definition flushed_table :: "env \<Rightarrow> lsm \<Rightarrow> sstable" where
  "flushed_table ev t =
     \<lparr>sst_data = mt_data (memTable t), createdAt = clock ev,
      filePath = Some (sstable_path (dataDir t) (flush_id ev)), sst_id = flush_id ev\<rparr>"

definition flushed_file :: "env \<Rightarrow> lsm \<Rightarrow> sstable_file" where
  "flushed_file ev t =
     \<lparr>file_id = flush_id ev, file_createdAt = clock ev, file_entries = mt_data (memTable t)\<rparr>"

text \<open>The MemTable right after the insert of a \<open>put\<close>, and the table a flush makes of it.\<close>

definition inserted :: "env \<Rightarrow> key \<Rightarrow> jsvalue \<Rightarrow> ttl_arg \<Rightarrow> lsm \<Rightarrow> memtable" where
  "inserted ev k v ttl t =
     fst (memtable_put (clock ev) k v (ttl_param (defaultTTL t) ttl) (memTable t))"

definition put_full :: "env \<Rightarrow> key \<Rightarrow> jsvalue \<Rightarrow> ttl_arg \<Rightarrow> lsm \<Rightarrow> bool" where
  "put_full ev k v ttl t =
     snd (memtable_put (clock ev) k v (ttl_param (defaultTTL t) ttl) (memTable t))"

definition put_table :: "env \<Rightarrow> key \<Rightarrow> jsvalue \<Rightarrow> ttl_arg \<Rightarrow> lsm \<Rightarrow> sstable" where
  "put_table ev k v ttl t =
     \<lparr>sst_data = mt_data (inserted ev k v ttl t), createdAt = clock ev,
      filePath = Some (sstable_path (dataDir t) (flush_id ev)), sst_id = flush_id ev\<rparr>"

definition merged_table :: "env \<Rightarrow> string \<Rightarrow> sstable list \<Rightarrow> sstable" where
  "merged_table ev dir ss =
     \<lparr>sst_data = merge_ssTables (clock ev) ss [], createdAt = clock ev,
      filePath = Some (sstable_path dir (compact_id ev)), sst_id = compact_id ev\<rparr>"

text \<open>
  The put reaches \<open>compact\<close>: the MemTable reports full, the new table is written, and
  the list has then grown beyond \<open>maxSSTables\<close>.
\<close>

definition put_compacts :: "env \<Rightarrow> key \<Rightarrow> jsvalue \<Rightarrow> ttl_arg \<Rightarrow> lsm \<Rightarrow> bool" where
  "put_compacts ev k v ttl t =
     (put_full ev k v ttl t
      \<and> \<not> fails ev (WriteSSTable (sstable_path (dataDir t) (flush_id ev)))
      \<and> maxSSTables t < length (ssTables t) + 1)"

subsection \<open>Concrete environments and engines\<close>

definition no_fault :: "fsop \<Rightarrow> bool" where
  "no_fault rq = False"

definition fault_on :: "fsop \<Rightarrow> fsop \<Rightarrow> bool" where
  "fault_on x rq = (rq = x)"

definition quiet_env :: "int \<Rightarrow> string \<Rightarrow> env" where
  "quiet_env now ident =
     \<lparr>clock = now, fails = no_fault, flush_id = ident, compact_id = ident @ ''c''\<rparr>"

definition faulty_env :: "int \<Rightarrow> string \<Rightarrow> fsop \<Rightarrow> env" where
  "faulty_env now ident rq =
     \<lparr>clock = now, fails = fault_on rq, flush_id = ident, compact_id = ident @ ''c''\<rparr>"

text \<open>An engine whose MemTable holds one entry with a TTL of 50 ms, written at time 10.\<close>

definition expiring_engine :: lsm where
  "expiring_engine =
     snd (put (quiet_env 10 ''a'') ''e'' (JVal ''x'') (TNum 50) (new_LSMTree 1000 10 ''./data''))"

text \<open>
  Engines with \<open>memTableMaxSize = 1\<close>, so that every put flushes: after one put
  (\<open>maxSSTables = 1\<close>), and after two puts (\<open>maxSSTables = 10\<close>: two tables, two files).
\<close>

definition one_table :: lsm where
  "one_table =
     snd (put (quiet_env 10 ''a'') ''x'' (JVal ''1'') (TNum 60000) (new_LSMTree 1 1 ''./data''))"

definition two_tables :: lsm where
  "two_tables =
     snd (put (quiet_env 20 ''b'') ''y'' (JVal ''2'') (TNum 60000)
       (snd (put (quiet_env 10 ''a'') ''x'' (JVal ''1'') (TNum 60000)
         (new_LSMTree 1 10 ''./data''))))"

text \<open>
  Two tables holding an entry with a TTL of 50 ms (\<open>x\<close>), a tombstone (\<open>k\<close>) and an
  entry with a TTL of one minute (\<open>y\<close>).
\<close>

definition mixed_tables :: lsm where
  "mixed_tables =
     snd (put (quiet_env 30 ''b'') ''y'' (JVal ''2'') (TNum 60000)
       (snd (delete (quiet_env 20 ''b'') ''k''
         (snd (put (quiet_env 10 ''a'') ''x'' (JVal ''1'') (TNum 50)
           (new_LSMTree 1 10 ''./data''))))))"

text \<open>
  An engine with \<open>memTableMaxSize = 2\<close> after \<open>delete("k")\<close> and \<open>put("a", "1", 60000)\<close>:
  the put fills the MemTable, and the flush seals the tombstone of \<open>k\<close> into a table.
\<close>

definition tombstone_table :: lsm where
  "tombstone_table =
     snd (put (quiet_env 20 ''a'') ''a'' (JVal ''1'') (TNum 60000)
       (snd (delete (quiet_env 10 ''a'') ''k'' (new_LSMTree 2 10 ''./data''))))"

text \<open>One table holding \<open>k\<close> with the value \<open>"old"\<close> and a TTL of one minute.\<close>

definition shadowed_engine :: lsm where
  "shadowed_engine =
     snd (put (quiet_env 10 ''a'') ''k'' (JVal ''old'') (TNum 60000) (new_LSMTree 1 10 ''./data''))"

text \<open>
  Two tables for the same key with \<open>maxSSTables = 2\<close>: the older holds \<open>k = "a"\<close>
  without expiry, the newer \<open>k = "b"\<close> expiring at time 60.
\<close>

definition layered_engine :: lsm where
  "layered_engine =
     snd (put (quiet_env 20 ''b'') ''k'' (JVal ''b'') (TNum 40)
       (snd (put (quiet_env 10 ''a'') ''k'' (JVal ''a'') (TNum 0)
         (new_LSMTree 1 2 ''./data''))))"

text \<open>
  An engine with room for 1000 entries in the MemTable and \<open>maxSSTables = 1\<close>, holding
  one table already (\<open>k = "old"\<close>, no expiry) and an empty MemTable.
\<close>

definition threshold_engine :: lsm where
  "threshold_engine =
     snd (flush (quiet_env 20 ''a'')
       (snd (put (quiet_env 10 ''a'') ''k'' (JVal ''old'') (TNum 0)
         (new_LSMTree 1000 1 ''./data''))))"

section \<open>Basic facts\<close>

lemmas scenario_defs = quiet_env_def faulty_env_def no_fault_def fault_on_def new_LSMTree_def

lemmas engine_defs = put_def delete_def get_def flush_def compact_def saveWAL_def
  memtable_put_def memtable_get_def memtable_size_def memtable_clear_def toJSON_def
  saveToDisk_def new_SSTable_def writeFile_wal_def writeFile_sstable_def sstable_path_def
  deleteFromDisk_def existsSync_def unlink_def sstable_get_def expired_def live_def
  getAllEntries_def memtable_getAllEntries_def sstable_getAllEntries_def

lemma live_iff_not_expired: "live now e = (\<not> expired now e)"
  by (auto simp: live_def expired_def split: option.splits)

subsection \<open>saveWAL\<close>

lemma saveWAL_fields [simp]:
  "memTable (saveWAL ev t) = memTable t"
  "ssTables (saveWAL ev t) = ssTables t"
  "maxSSTables (saveWAL ev t) = maxSSTables t"
  "defaultTTL (saveWAL ev t) = defaultTTL t"
  "dataDir (saveWAL ev t) = dataDir t"
  "sstable_files (disk (saveWAL ev t)) = sstable_files (disk t)"
  by (simp_all add: saveWAL_def writeFile_wal_def Let_def)

lemma saveWAL_wal:
  "wal_json (disk (saveWAL ev t)) =
     (if fails ev WriteWAL then wal_json (disk t)
      else Some \<lparr>wal_timestamp = clock ev, wal_memTable = mt_data (memTable t)\<rparr>)"
  by (simp add: saveWAL_def writeFile_wal_def Let_def toJSON_def)

subsection \<open>compact\<close>

lemma compact_unfold:
  "compact ev t =
     (if length (ssTables t) \<le> 1 then (Resolved, t)
      else case delete_old_files ev (ssTables t) (disk t) of
             (Rejected err, d1) \<Rightarrow> (Rejected err, t\<lparr>disk := d1\<rparr>)
           | (Resolved, d1) \<Rightarrow>
               if fails ev (WriteSSTable (sstable_path (dataDir t) (compact_id ev)))
               then (Rejected IoError, t\<lparr>disk := d1\<rparr>)
               else (Resolved,
                 t\<lparr>disk := d1\<lparr>sstable_files :=
                        AList.update (sstable_path (dataDir t) (compact_id ev))
                          \<lparr>file_id = compact_id ev, file_createdAt = clock ev,
                           file_entries = merge_ssTables (clock ev) (ssTables t) []\<rparr>
                          (sstable_files d1)\<rparr>,
                   ssTables :=
                     [\<lparr>sst_data = merge_ssTables (clock ev) (ssTables t) [],
                       createdAt = clock ev,
                       filePath = Some (sstable_path (dataDir t) (compact_id ev)),
                       sst_id = compact_id ev\<rparr>]\<rparr>))"
  by (simp add: compact_def saveToDisk_def new_SSTable_def writeFile_sstable_def Let_def
        split: prod.splits outcome.splits)

lemma delete_old_files_wal [simp]:
  "wal_json (snd (delete_old_files ev ss d)) = wal_json d"
  by (induction ss arbitrary: d)
     (auto simp: deleteFromDisk_def unlink_def split: option.splits prod.splits outcome.splits)

lemma compact_memTable [simp]: "memTable (snd (compact ev t)) = memTable t"
  by (simp add: compact_def Let_def split: prod.splits outcome.splits)

lemma compact_wal [simp]: "wal_json (disk (snd (compact ev t))) = wal_json (disk t)"
proof -
  obtain r1 d1 where del: "delete_old_files ev (ssTables t) (disk t) = (r1, d1)"
    by force
  have w1: "wal_json d1 = wal_json (disk t)"
    using delete_old_files_wal [of ev "ssTables t" "disk t"] del by simp
  show ?thesis
    by (cases r1) (simp_all add: compact_unfold del w1)
qed

lemma compact_ssTables:
  "ssTables (snd (compact ev t)) = ssTables t
   \<or> (fst (compact ev t) = Resolved
      \<and> ssTables (snd (compact ev t)) = [merged_table ev (dataDir t) (ssTables t)])"
proof -
  obtain r1 d1 where del: "delete_old_files ev (ssTables t) (disk t) = (r1, d1)"
    by force
  show ?thesis
    by (cases r1) (simp_all add: compact_unfold del merged_table_def)
qed

lemma delete_old_files_resolves:
  "\<forall>s\<in>set ss. \<forall>p. filePath s = Some p \<longrightarrow> \<not> fails ev (Unlink p) \<Longrightarrow>
   fst (delete_old_files ev ss d) = Resolved"
  by (induction ss arbitrary: d)
     (auto simp: deleteFromDisk_def unlink_def split: option.splits)

lemma delete_old_files_stays_absent:
  "map_of (sstable_files d) p = None \<Longrightarrow>
   map_of (sstable_files (snd (delete_old_files ev ss d))) p = None"
proof (induction ss arbitrary: d)
  case Nil
  then show ?case by simp
next
  case (Cons s ss)
  obtain r d' where step: "deleteFromDisk ev s d = (r, d')" by force
  have "map_of (sstable_files d') p = None"
    using step Cons.prems
    by (auto simp: deleteFromDisk_def unlink_def delete_conv' split: option.splits if_splits)
  then show ?case
    using Cons.IH [of d'] step by (cases r) simp_all
qed

lemma delete_old_files_removes:
  "fst (delete_old_files ev ss d) = Resolved \<Longrightarrow> s \<in> set ss \<Longrightarrow> filePath s = Some p \<Longrightarrow>
   map_of (sstable_files (snd (delete_old_files ev ss d))) p = None"
proof (induction ss arbitrary: d)
  case Nil
  then show ?case by simp
next
  case (Cons a ss)
  obtain r d' where step: "deleteFromDisk ev a d = (r, d')" by force
  have r: "r = Resolved"
    using Cons.prems(1) step by (cases r) simp_all
  show ?case
  proof (cases "s = a")
    case True
    have "map_of (sstable_files d') p = None"
      using step r True Cons.prems(3)
      by (auto simp: deleteFromDisk_def unlink_def existsSync_def delete_conv' split: if_splits)
    then show ?thesis
      using delete_old_files_stays_absent [of d' p ev ss] step r by simp
  next
    case False
    then have "s \<in> set ss" using Cons.prems(2) by simp
    then show ?thesis
      using Cons.IH [of d'] Cons.prems(1,3) step r by simp
  qed
qed

subsection \<open>The merge loops\<close>

lemma set_update_subset: "set (AList.update k v al) \<subseteq> insert (k, v) (set al)"
  by (induction al) auto

lemma merge_entries_kept:
  "\<forall>(k, e)\<in>set acc. val e \<noteq> JNull \<and> live now e \<Longrightarrow>
   \<forall>(k, e)\<in>set (merge_entries now xs acc). val e \<noteq> JNull \<and> live now e"
proof (induction xs arbitrary: acc)
  case Nil
  then show ?case by simp
next
  case (Cons x xs)
  obtain k e where x: "x = (k, e)" by (cases x)
  show ?case
  proof (cases "val e \<noteq> JNull \<and> live now e")
    case True
    have "\<forall>(k', e')\<in>set (AList.update k e acc). val e' \<noteq> JNull \<and> live now e'"
      using True Cons.prems set_update_subset [of k e acc] by auto
    then show ?thesis using Cons.IH x True by simp
  next
    case False
    then show ?thesis using Cons.IH [OF Cons.prems] x by auto
  qed
qed

lemma merge_ssTables_kept:
  "\<forall>(k, e)\<in>set acc. val e \<noteq> JNull \<and> live now e \<Longrightarrow>
   \<forall>(k, e)\<in>set (merge_ssTables now ss acc). val e \<noteq> JNull \<and> live now e"
proof (induction ss arbitrary: acc)
  case Nil
  then show ?case by simp
next
  case (Cons s ss)
  show ?case
    using Cons.IH [OF merge_entries_kept [OF Cons.prems]] by simp
qed

lemma merge_entries_other:
  "k \<notin> fst ` set xs \<Longrightarrow> map_of (merge_entries now xs acc) k = map_of acc k"
proof (induction xs arbitrary: acc)
  case Nil
  then show ?case by simp
next
  case (Cons x xs)
  obtain k' e' where x: "x = (k', e')" by (cases x)
  have "k' \<noteq> k" "k \<notin> fst ` set xs" using Cons.prems x by auto
  then show ?case using Cons.IH x by (simp add: update_conv')
qed

lemma merge_entries_last:
  "distinct (map fst xs) \<Longrightarrow> map_of xs k = Some e \<Longrightarrow> val e \<noteq> JNull \<Longrightarrow> live now e \<Longrightarrow>
   map_of (merge_entries now xs acc) k = Some e"
proof (induction xs arbitrary: acc)
  case Nil
  then show ?case by simp
next
  case (Cons x xs)
  obtain k' e' where x: "x = (k', e')" by (cases x)
  show ?case
  proof (cases "k' = k")
    case True
    then have e: "e' = e" using Cons.prems(2) x by simp
    have "k \<notin> fst ` set xs" using Cons.prems(1) x True by simp
    then show ?thesis
      using merge_entries_other [of k xs now "AList.update k e acc"] x True e Cons.prems(3,4)
      by (simp add: update_conv')
  next
    case False
    then have "map_of xs k = Some e" using Cons.prems(2) x by simp
    moreover have "distinct (map fst xs)" using Cons.prems(1) by simp
    ultimately show ?thesis
      using Cons.IH Cons.prems(3,4) x by simp
  qed
qed

lemma merge_ssTables_append:
  "merge_ssTables now (ss @ [s]) acc = merge_entries now (sst_data s) (merge_ssTables now ss acc)"
  by (induction ss arbitrary: acc) simp_all

subsection \<open>flush and put\<close>

lemma flush_unfold:
  "flush ev t =
     (if mt_data (memTable t) = [] then (Resolved, t)
      else if fails ev (WriteSSTable (sstable_path (dataDir t) (flush_id ev)))
      then (Rejected IoError, t)
      else
        let t2 = saveWAL ev
              (t\<lparr>disk := (disk t)\<lparr>sstable_files :=
                     AList.update (sstable_path (dataDir t) (flush_id ev)) (flushed_file ev t)
                       (sstable_files (disk t))\<rparr>,
                 ssTables := ssTables t @ [flushed_table ev t],
                 memTable := memtable_clear (memTable t)\<rparr>)
        in if length (ssTables t) + 1 > maxSSTables t then compact ev t2 else (Resolved, t2))"
  by (simp add: flush_def memtable_size_def saveToDisk_def new_SSTable_def
        writeFile_sstable_def flushed_table_def flushed_file_def Let_def)

lemma flush_memTable:
  "memTable (snd (flush ev t)) =
     (if mt_data (memTable t) = [] \<or> fails ev (WriteSSTable (sstable_path (dataDir t) (flush_id ev)))
      then memTable t else memtable_clear (memTable t))"
  by (simp add: flush_unfold Let_def)

lemma flush_wal:
  "\<not> fails ev WriteWAL \<Longrightarrow>
   wal_json (disk (snd (flush ev t))) =
     (if mt_data (memTable t) = [] \<or> fails ev (WriteSSTable (sstable_path (dataDir t) (flush_id ev)))
      then wal_json (disk t)
      else Some \<lparr>wal_timestamp = clock ev, wal_memTable = []\<rparr>)"
  by (simp add: flush_unfold Let_def saveWAL_wal memtable_clear_def)

lemma put_wal:
  assumes "\<not> fails ev WriteWAL"
  shows "wal_json (disk (snd (put ev k v ttl t))) =
     Some \<lparr>wal_timestamp = clock ev, wal_memTable = mt_data (memTable (snd (put ev k v ttl t)))\<rparr>"
  using assms
  by (simp add: put_def memtable_put_def Let_def flush_wal flush_memTable saveWAL_wal
        memtable_clear_def)

lemma flush_changed_wal:
  "\<not> fails ev WriteWAL \<Longrightarrow> memTable (snd (flush ev t)) \<noteq> memTable t \<Longrightarrow>
   wal_json (disk (snd (flush ev t))) =
     Some \<lparr>wal_timestamp = clock ev, wal_memTable = mt_data (memTable (snd (flush ev t)))\<rparr>"
  by (simp add: flush_wal flush_memTable memtable_clear_def split: if_splits)

lemma flush_unchanged_wal:
  "memTable (snd (flush ev t)) = memTable t \<Longrightarrow>
   wal_json (disk (snd (flush ev t))) = wal_json (disk t)"
proof (cases "mt_data (memTable t) = []
    \<or> fails ev (WriteSSTable (sstable_path (dataDir t) (flush_id ev)))")
  case True
  then show ?thesis by (auto simp: flush_unfold)
next
  case False
  assume same: "memTable (snd (flush ev t)) = memTable t"
  have "memTable (snd (flush ev t)) = memtable_clear (memTable t)"
    using False by (simp add: flush_memTable)
  then have "mt_data (memTable t) = mt_data (memtable_clear (memTable t))"
    using same by simp
  then have "mt_data (memTable t) = []"
    by (simp add: memtable_clear_def)
  then show ?thesis using False by simp
qed

lemma put_unfold:
  "put ev k v ttl t =
     (if put_full ev k v ttl t
      then flush ev (saveWAL ev (t\<lparr>memTable := inserted ev k v ttl t\<rparr>))
      else (Resolved, saveWAL ev (t\<lparr>memTable := inserted ev k v ttl t\<rparr>)))"
  by (simp add: put_def put_full_def inserted_def Let_def split: prod.splits)

lemma inserted_data:
  "mt_data (inserted ev k v ttl t) =
     AList.update k
       \<lparr>val = v,
        expiresAt = (case ttl_param (defaultTTL t) ttl of None \<Rightarrow> None
                     | Some n \<Rightarrow> if n \<noteq> 0 then Some (clock ev + n) else None),
        timestamp = clock ev\<rparr>
       (mt_data (memTable t))"
  by (simp add: inserted_def memtable_put_def Let_def)

text \<open>
  The three shapes of the state after a put: the entry stays in the MemTable (no flush,
  or the table could not be written), or the MemTable was sealed into a new last table,
  or that table and the older ones were merged into one.
\<close>

lemma put_shape:
  "(memTable (snd (put ev k v ttl t)) = inserted ev k v ttl t
      \<and> ssTables (snd (put ev k v ttl t)) = ssTables t)
   \<or> (memTable (snd (put ev k v ttl t)) = (inserted ev k v ttl t)\<lparr>mt_data := []\<rparr>
      \<and> ssTables (snd (put ev k v ttl t)) = ssTables t @ [put_table ev k v ttl t])
   \<or> (memTable (snd (put ev k v ttl t)) = (inserted ev k v ttl t)\<lparr>mt_data := []\<rparr>
      \<and> ssTables (snd (put ev k v ttl t))
          = [merged_table ev (dataDir t) (ssTables t @ [put_table ev k v ttl t])]
      \<and> maxSSTables t < length (ssTables t) + 1
      \<and> fst (put ev k v ttl t) = Resolved)"
proof -
  define m1 where "m1 = inserted ev k v ttl t"
  define t1 where "t1 = saveWAL ev (t\<lparr>memTable := m1\<rparr>)"
  have put_eq: "put ev k v ttl t =
      (if snd (memtable_put (clock ev) k v (ttl_param (defaultTTL t) ttl) (memTable t))
       then flush ev t1 else (Resolved, t1))"
    by (simp add: put_def t1_def m1_def inserted_def Let_def split: prod.splits)
  have t1: "memTable t1 = m1" "ssTables t1 = ssTables t" "dataDir t1 = dataDir t"
    "maxSSTables t1 = maxSSTables t"
    by (simp_all add: t1_def)
  have ft: "flushed_table ev t1 = put_table ev k v ttl t"
    by (simp add: flushed_table_def put_table_def t1 m1_def)
  define t2 where "t2 = saveWAL ev
              (t1\<lparr>disk := (disk t1)\<lparr>sstable_files :=
                     AList.update (sstable_path (dataDir t1) (flush_id ev)) (flushed_file ev t1)
                       (sstable_files (disk t1))\<rparr>,
                 ssTables := ssTables t1 @ [flushed_table ev t1],
                 memTable := memtable_clear (memTable t1)\<rparr>)"
  have t2: "memTable t2 = m1\<lparr>mt_data := []\<rparr>"
    "ssTables t2 = ssTables t @ [put_table ev k v ttl t]" "dataDir t2 = dataDir t"
    by (simp_all add: t2_def t1 ft memtable_clear_def)
  have fl: "flush ev t1 = (Resolved, t1) \<or> flush ev t1 = (Rejected IoError, t1)
      \<or> flush ev t1 = (Resolved, t2)
      \<or> (flush ev t1 = compact ev t2 \<and> maxSSTables t < length (ssTables t) + 1)"
    unfolding t2_def by (simp add: flush_unfold [of ev t1] Let_def t1)
  have c: "memTable (snd (compact ev t2)) = m1\<lparr>mt_data := []\<rparr>"
    by (simp add: t2)
  show ?thesis
    using fl compact_ssTables [of ev t2]
    by (auto simp: put_eq t1 t2 c m1_def [symmetric])
qed

lemma put_without_compaction:
  "\<not> put_compacts ev k v ttl t \<Longrightarrow>
   (memTable (snd (put ev k v ttl t)) = inserted ev k v ttl t
      \<and> ssTables (snd (put ev k v ttl t)) = ssTables t)
   \<or> (memTable (snd (put ev k v ttl t)) = (inserted ev k v ttl t)\<lparr>mt_data := []\<rparr>
      \<and> ssTables (snd (put ev k v ttl t)) = ssTables t @ [put_table ev k v ttl t])"
  by (auto simp: put_compacts_def put_unfold flush_unfold Let_def memtable_clear_def
        flushed_table_def put_table_def)

subsection \<open>get\<close>

lemma get_memtable_hit:
  "map_of (mt_data (memTable t)) k = Some e \<Longrightarrow> \<not> expired (clock ev) e \<Longrightarrow>
   fst (get ev k t) = Some e"
  by (simp add: get_def memtable_get_def)

lemma get_memtable_miss:
  "mt_data (memTable t) = [] \<Longrightarrow>
   fst (get ev k t) = get_ssTables (clock ev) k (rev (ssTables t))"
  by (simp add: get_def memtable_get_def)

lemma get_memtable_expired:
  "map_of (mt_data (memTable t)) k = Some e \<Longrightarrow> expired (clock ev) e \<Longrightarrow>
   fst (get ev k t) = get_ssTables (clock ev) k (rev (ssTables t))"
  by (simp add: get_def memtable_get_def)

lemma get_ssTables_skip:
  "\<forall>s\<in>set xs. sstable_get now k s = None \<Longrightarrow>
   get_ssTables now k (xs @ ys) = get_ssTables now k ys"
  by (induction xs) simp_all

section \<open>Claims\<close>

subsection \<open>C1: put, delete, get\<close>

text \<open>
  C1 says that \<open>put(k, v, ttl)\<close>, \<open>delete(k)\<close>, \<open>get(k)\<close> on the same engine ends in a
  miss. In the code \<open>delete\<close> stores the tombstone entry in the MemTable and \<open>get\<close>
  hands back whatever entry object the MemTable holds: for every engine, key, value, ttl
  and environment, the \<open>get\<close> returns the tombstone entry (\<open>value = null\<close>, no expiry,
  timestamp of the delete), not \<open>null\<close>.
\<close>

theorem get_after_put_delete_returns_tombstone:
  "fst (get ev3 k (snd (delete ev2 k (snd (put ev1 k v ttl t))))) =
     Some \<lparr>val = JNull, expiresAt = None, timestamp = clock ev2\<rparr>"
  by (simp add: get_def delete_def memtable_put_def memtable_get_def Let_def update_conv'
        expired_def)

text \<open>C1 at \<open>put("k", "v", 60000)\<close> (time 10), \<open>delete("k")\<close> (time 20), \<open>get("k")\<close> (time 30).\<close>

theorem get_after_put_delete_returns_tombstone_witness:
  "fst (get (quiet_env 30 ''a'') ''k''
     (snd (delete (quiet_env 20 ''a'') ''k''
       (snd (put (quiet_env 10 ''a'') ''k'' (JVal ''v'') (TNum 60000)
         (new_LSMTree 1000 10 ''./data''))))))
   = Some \<lparr>val = JNull, expiresAt = None, timestamp = 20\<rparr>"
  using get_after_put_delete_returns_tombstone
    [of "quiet_env 30 ''a''" "''k''" "quiet_env 20 ''a''" "quiet_env 10 ''a''"
        "JVal ''v''" "TNum 60000" "new_LSMTree 1000 10 ''./data''"]
  by (simp add: quiet_env_def)

subsection \<open>C2: compaction and the old files\<close>

text \<open>
  C2 as stated (a failed write of the merged table leaves every input file on disk) is
  false: on the engine with two tables, a compaction whose write of the merged table is
  rejected ends with the error, and the file of the first table, present before, is gone.
\<close>

theorem compact_persist_failure_loses_files:
  "fst (compact (faulty_env 30 ''c'' (WriteSSTable ''./data/sstable_cc.json'')) two_tables)
     = Rejected IoError
   \<and> existsSync ''./data/sstable_a.json'' (disk two_tables)
   \<and> \<not> existsSync ''./data/sstable_a.json''
        (disk (snd (compact (faulty_env 30 ''c'' (WriteSSTable ''./data/sstable_cc.json''))
           two_tables)))"
  by (simp add: two_tables_def scenario_defs engine_defs Let_def)

text \<open>
  C2, amended: compaction deletes the files of the input tables first and writes the
  merged table afterwards. When more than one table is compacted, no \<open>unlink\<close> of an
  input file is rejected and the write of the merged table is rejected, the compaction
  ends with \<open>IoError\<close>, the in-memory list still holds every original table, and no
  input table's file is left on disk.
\<close>

theorem compact_deletes_before_persisting:
  assumes "1 < length (ssTables t)"
    and "\<forall>s\<in>set (ssTables t). \<forall>p. filePath s = Some p \<longrightarrow> \<not> fails ev (Unlink p)"
    and "fails ev (WriteSSTable (sstable_path (dataDir t) (compact_id ev)))"
  shows "fst (compact ev t) = Rejected IoError
       \<and> ssTables (snd (compact ev t)) = ssTables t
       \<and> (\<forall>s\<in>set (ssTables t). \<forall>p. filePath s = Some p \<longrightarrow>
            \<not> existsSync p (disk (snd (compact ev t))))"
proof -
  obtain r1 d1 where del: "delete_old_files ev (ssTables t) (disk t) = (r1, d1)"
    by force
  have r1: "r1 = Resolved"
    using delete_old_files_resolves [OF assms(2), of "disk t"] del by simp
  have eq: "compact ev t = (Rejected IoError, t\<lparr>disk := d1\<rparr>)"
    using assms(1,3) by (simp add: compact_unfold del r1)
  have gone: "map_of (sstable_files d1) p = None"
    if "s \<in> set (ssTables t)" "filePath s = Some p" for s p
    using delete_old_files_removes [of ev "ssTables t" "disk t" s p] that del r1 by simp
  show ?thesis
    using gone by (simp add: eq existsSync_def)
qed

text \<open>The amended C2 on the engine with two tables: both files are gone, both tables kept.\<close>

theorem compact_deletes_before_persisting_witness:
  "1 < length (ssTables two_tables)
   \<and> map filePath (ssTables two_tables)
       = [Some ''./data/sstable_a.json'', Some ''./data/sstable_b.json'']
   \<and> \<not> fails (faulty_env 30 ''c'' (WriteSSTable ''./data/sstable_cc.json''))
          (Unlink ''./data/sstable_a.json'')
   \<and> \<not> fails (faulty_env 30 ''c'' (WriteSSTable ''./data/sstable_cc.json''))
          (Unlink ''./data/sstable_b.json'')
   \<and> fails (faulty_env 30 ''c'' (WriteSSTable ''./data/sstable_cc.json''))
        (WriteSSTable (sstable_path (dataDir two_tables)
           (compact_id (faulty_env 30 ''c'' (WriteSSTable ''./data/sstable_cc.json'')))))
   \<and> fst (compact (faulty_env 30 ''c'' (WriteSSTable ''./data/sstable_cc.json'')) two_tables)
       = Rejected IoError
   \<and> ssTables (snd (compact (faulty_env 30 ''c'' (WriteSSTable ''./data/sstable_cc.json''))
        two_tables)) = ssTables two_tables
   \<and> \<not> existsSync ''./data/sstable_a.json''
        (disk (snd (compact (faulty_env 30 ''c'' (WriteSSTable ''./data/sstable_cc.json''))
           two_tables)))
   \<and> \<not> existsSync ''./data/sstable_b.json''
        (disk (snd (compact (faulty_env 30 ''c'' (WriteSSTable ''./data/sstable_cc.json''))
           two_tables)))"
  using compact_deletes_before_persisting
    [of two_tables "faulty_env 30 ''c'' (WriteSSTable ''./data/sstable_cc.json'')"]
  by (simp add: two_tables_def scenario_defs engine_defs Let_def)

subsection \<open>C3: the WAL and the MemTable\<close>

text \<open>
  C3 as stated (every operation that changes the MemTable, the lazy removal of an
  expired entry included, leaves the WAL equal to the MemTable) is false. On the engine
  holding one entry that expires at time 60, whose WAL matches, a \<open>get\<close> at time 100
  removes the entry from the MemTable and leaves the WAL as it was; and a \<open>put\<close> whose
  WAL write is rejected resolves while the WAL does not hold the new MemTable.
\<close>

theorem wal_stale_after_lazy_expiry:
  "wal_matches expiring_engine
   \<and> \<not> wal_matches (snd (get (quiet_env 100 ''b'') ''e'' expiring_engine))
   \<and> fst (put (faulty_env 20 ''b'' WriteWAL) ''y'' (JVal ''2'') (TNum 60000) expiring_engine)
       = Resolved
   \<and> \<not> wal_matches
        (snd (put (faulty_env 20 ''b'' WriteWAL) ''y'' (JVal ''2'') (TNum 60000)
           expiring_engine))"
  by (simp add: expiring_engine_def wal_matches_def scenario_defs engine_defs Let_def)

text \<open>
  C3, amended: when the WAL write is not rejected, the WAL after \<open>put\<close> and after
  \<open>delete\<close> is present and holds exactly the pairs of the MemTable, and a \<open>flush\<close>
  that changes the MemTable leaves the WAL present and holding exactly the pairs of the
  new MemTable, whatever the WAL held before. A \<open>flush\<close> that leaves the MemTable as
  it was leaves the WAL as it was. The lookups \<open>get\<close> and \<open>getAllEntries\<close>, which
  remove expired entries from the MemTable, never write the WAL.
\<close>

theorem wal_rewritten_by_mutations:
  assumes "\<not> fails ev WriteWAL"
  shows "wal_json (disk (snd (put ev k v ttl t))) =
           Some \<lparr>wal_timestamp = clock ev,
                 wal_memTable = mt_data (memTable (snd (put ev k v ttl t)))\<rparr>
       \<and> wal_json (disk (snd (delete ev k t))) =
           Some \<lparr>wal_timestamp = clock ev,
                 wal_memTable = mt_data (memTable (snd (delete ev k t)))\<rparr>
       \<and> (memTable (snd (flush ev t)) \<noteq> memTable t \<longrightarrow>
            wal_json (disk (snd (flush ev t))) =
              Some \<lparr>wal_timestamp = clock ev,
                    wal_memTable = mt_data (memTable (snd (flush ev t)))\<rparr>)
       \<and> (memTable (snd (flush ev t)) = memTable t \<longrightarrow>
            wal_json (disk (snd (flush ev t))) = wal_json (disk t))
       \<and> wal_json (disk (snd (get ev' k t))) = wal_json (disk t)
       \<and> wal_json (disk (snd (getAllEntries ev' t))) = wal_json (disk t)"
proof (intro conjI impI)
  show "wal_json (disk (snd (put ev k v ttl t))) =
           Some \<lparr>wal_timestamp = clock ev,
                 wal_memTable = mt_data (memTable (snd (put ev k v ttl t)))\<rparr>"
    using assms by (rule put_wal)
  show "wal_json (disk (snd (delete ev k t))) =
           Some \<lparr>wal_timestamp = clock ev,
                 wal_memTable = mt_data (memTable (snd (delete ev k t)))\<rparr>"
    using assms by (simp add: delete_def memtable_put_def Let_def saveWAL_wal)
  show "wal_json (disk (snd (flush ev t))) =
              Some \<lparr>wal_timestamp = clock ev,
                    wal_memTable = mt_data (memTable (snd (flush ev t)))\<rparr>"
    if "memTable (snd (flush ev t)) \<noteq> memTable t"
    using assms that by (rule flush_changed_wal)
  show "wal_json (disk (snd (flush ev t))) = wal_json (disk t)"
    if "memTable (snd (flush ev t)) = memTable t"
    using that by (rule flush_unchanged_wal)
  show "wal_json (disk (snd (get ev' k t))) = wal_json (disk t)"
    by (simp add: get_def memtable_get_def split: option.splits prod.splits)
  show "wal_json (disk (snd (getAllEntries ev' t))) = wal_json (disk t)"
    by (simp add: getAllEntries_def memtable_getAllEntries_def Let_def)
qed

text \<open>
  The amended C3 on the engine with one entry in the MemTable: the flush at time 200
  changes the MemTable and the WAL afterwards is the empty MemTable; a second flush
  leaves the MemTable and the WAL as they are.
\<close>

theorem wal_rewritten_by_mutations_witness:
  "\<not> fails (quiet_env 200 ''b'') WriteWAL
   \<and> memTable (snd (flush (quiet_env 200 ''b'') expiring_engine)) \<noteq> memTable expiring_engine
   \<and> wal_json (disk (snd (flush (quiet_env 200 ''b'') expiring_engine)))
       = Some \<lparr>wal_timestamp = 200, wal_memTable = []\<rparr>
   \<and> mt_data (memTable (snd (flush (quiet_env 200 ''b'') expiring_engine))) = []
   \<and> wal_json (disk (snd (delete (quiet_env 200 ''b'') ''e'' expiring_engine)))
       = Some \<lparr>wal_timestamp = 200,
               wal_memTable = [(''e'', \<lparr>val = JNull, expiresAt = None, timestamp = 200\<rparr>)]\<rparr>
   \<and> \<not> fails (quiet_env 300 ''c'') WriteWAL
   \<and> memTable (snd (flush (quiet_env 300 ''c'')
        (snd (flush (quiet_env 200 ''b'') expiring_engine))))
       = memTable (snd (flush (quiet_env 200 ''b'') expiring_engine))
   \<and> wal_json (disk (snd (flush (quiet_env 300 ''c'')
        (snd (flush (quiet_env 200 ''b'') expiring_engine)))))
       = Some \<lparr>wal_timestamp = 200, wal_memTable = []\<rparr>"
  using wal_rewritten_by_mutations
    [of "quiet_env 200 ''b''" "''e''" "JVal ''x''" "TNum 50" expiring_engine]
    wal_rewritten_by_mutations
    [of "quiet_env 300 ''c''" "''e''" "JVal ''x''" "TNum 50"
        "snd (flush (quiet_env 200 ''b'') expiring_engine)"]
  by (simp add: expiring_engine_def scenario_defs engine_defs Let_def)

subsection \<open>C4: failures of put\<close>

text \<open>
  C4 as stated is false in both halves. A \<open>put\<close> whose WAL write is rejected resolves
  (and no WAL has been written). And a \<open>put\<close> whose flush fails in the compaction it
  triggers (here the \<open>unlink\<close> of the old file is rejected) ends with \<open>IoError\<close> while
  the MemTable is empty: the new entry is in the table just appended.
\<close>

theorem put_swallows_wal_failure:
  "fails (faulty_env 10 ''a'' WriteWAL) WriteWAL
   \<and> fst (put (faulty_env 10 ''a'' WriteWAL) ''k'' (JVal ''v'') (TNum 60000)
            (new_LSMTree 1000 10 ''./data'')) = Resolved
   \<and> wal_json (disk (snd (put (faulty_env 10 ''a'' WriteWAL) ''k'' (JVal ''v'') (TNum 60000)
            (new_LSMTree 1000 10 ''./data'')))) = None
   \<and> fst (put (faulty_env 20 ''b'' (Unlink ''./data/sstable_a.json'')) ''y'' (JVal ''2'')
            (TNum 60000) one_table) = Rejected IoError
   \<and> mt_data (memTable (snd (put (faulty_env 20 ''b'' (Unlink ''./data/sstable_a.json''))
            ''y'' (JVal ''2'') (TNum 60000) one_table))) = []"
  by (simp add: one_table_def scenario_defs engine_defs Let_def)

text \<open>
  C4, amended: a rejected WAL write alone never fails \<open>put\<close> (\<open>saveWAL\<close> catches it):
  when the MemTable does not report full, \<open>put\<close> resolves and the MemTable holds the new
  entry, whatever happens to the WAL write. \<open>put\<close> fails, with \<open>IoError\<close>, only through
  the flush it triggers. When the write of the new table is rejected, the MemTable still
  holds the new entry. In every failure the mutation is kept: either the MemTable is the
  one right after the insert, or it was cleared and its pairs are the newly appended last
  table.
\<close>

theorem put_failure_modes:
  "(\<not> put_full ev k v ttl t \<longrightarrow>
      fst (put ev k v ttl t) = Resolved
      \<and> memTable (snd (put ev k v ttl t)) = inserted ev k v ttl t)
   \<and> (put_full ev k v ttl t
      \<and> fails ev (WriteSSTable (sstable_path (dataDir t) (flush_id ev))) \<longrightarrow>
      fst (put ev k v ttl t) = Rejected IoError
      \<and> memTable (snd (put ev k v ttl t)) = inserted ev k v ttl t)
   \<and> (fst (put ev k v ttl t) \<noteq> Resolved \<longrightarrow>
      fst (put ev k v ttl t) = Rejected IoError
      \<and> (memTable (snd (put ev k v ttl t)) = inserted ev k v ttl t
           \<and> ssTables (snd (put ev k v ttl t)) = ssTables t
         \<or> memTable (snd (put ev k v ttl t)) = (inserted ev k v ttl t)\<lparr>mt_data := []\<rparr>
           \<and> ssTables (snd (put ev k v ttl t)) = ssTables t @ [put_table ev k v ttl t]))
   \<and> map_option val (Map_get (mt_data (inserted ev k v ttl t)) k) = Some v"
proof (intro conjI impI)
  assume "\<not> put_full ev k v ttl t"
  then show "fst (put ev k v ttl t) = Resolved"
    and "memTable (snd (put ev k v ttl t)) = inserted ev k v ttl t"
    by (simp_all add: put_unfold)
next
  assume "put_full ev k v ttl t
      \<and> fails ev (WriteSSTable (sstable_path (dataDir t) (flush_id ev)))"
  then show "fst (put ev k v ttl t) = Rejected IoError"
    and "memTable (snd (put ev k v ttl t)) = inserted ev k v ttl t"
    by (simp_all add: put_unfold flush_unfold inserted_data)
next
  assume r: "fst (put ev k v ttl t) \<noteq> Resolved"
  obtain err where "fst (put ev k v ttl t) = Rejected err"
    using r by (cases "fst (put ev k v ttl t)") simp_all
  then show "fst (put ev k v ttl t) = Rejected IoError"
    by (cases err) simp
  show "memTable (snd (put ev k v ttl t)) = inserted ev k v ttl t
           \<and> ssTables (snd (put ev k v ttl t)) = ssTables t
         \<or> memTable (snd (put ev k v ttl t)) = (inserted ev k v ttl t)\<lparr>mt_data := []\<rparr>
           \<and> ssTables (snd (put ev k v ttl t)) = ssTables t @ [put_table ev k v ttl t]"
    using put_shape [of ev k v ttl t] r by blast
next
  show "map_option val (Map_get (mt_data (inserted ev k v ttl t)) k) = Some v"
    by (simp add: inserted_data update_conv')
qed

text \<open>
  The amended C4 on the engine with one table and \<open>memTableMaxSize = 1\<close>: the put fills
  the MemTable, the write of the new table is rejected, the put fails and the MemTable
  holds \<open>y\<close>.
\<close>

theorem put_failure_modes_witness:
  "put_full (faulty_env 20 ''b'' (WriteSSTable ''./data/sstable_b.json'')) ''y'' (JVal ''2'')
     (TNum 60000) one_table
   \<and> fails (faulty_env 20 ''b'' (WriteSSTable ''./data/sstable_b.json''))
       (WriteSSTable (sstable_path (dataDir one_table)
          (flush_id (faulty_env 20 ''b'' (WriteSSTable ''./data/sstable_b.json'')))))
   \<and> fst (put (faulty_env 20 ''b'' (WriteSSTable ''./data/sstable_b.json'')) ''y'' (JVal ''2'')
        (TNum 60000) one_table) = Rejected IoError
   \<and> mt_data (memTable (snd (put (faulty_env 20 ''b'' (WriteSSTable ''./data/sstable_b.json''))
        ''y'' (JVal ''2'') (TNum 60000) one_table)))
       = [(''y'', \<lparr>val = JVal ''2'', expiresAt = Some 60020, timestamp = 20\<rparr>)]
   \<and> \<not> put_full (quiet_env 10 ''a'') ''k'' (JVal ''v'') (TNum 60000)
          (new_LSMTree 1000 10 ''./data'')
   \<and> fst (put (quiet_env 10 ''a'') ''k'' (JVal ''v'') (TNum 60000)
          (new_LSMTree 1000 10 ''./data'')) = Resolved"
  using put_failure_modes
    [of "faulty_env 20 ''b'' (WriteSSTable ''./data/sstable_b.json'')" "''y''" "JVal ''2''"
        "TNum 60000" one_table]
    put_failure_modes
    [of "quiet_env 10 ''a''" "''k''" "JVal ''v''" "TNum 60000" "new_LSMTree 1000 10 ''./data''"]
  by (simp add: one_table_def put_full_def inserted_def scenario_defs engine_defs Let_def)

subsection \<open>C5: getAllEntries\<close>

text \<open>
  C5 says that \<open>list()\<close> never returns a tombstone, also when the tombstone sits in a
  table rather than in the MemTable. After \<open>delete("k")\<close> and \<open>put("a", "1", 60000)\<close> on
  an engine with \<open>memTableMaxSize = 2\<close> the MemTable is empty and the only table holds
  the tombstone of \<open>k\<close>; \<open>getAllEntries\<close> at time 30 returns it, with \<open>value = null\<close>,
  next to the entry of \<open>a\<close>.
\<close>

theorem getAllEntries_returns_table_tombstone:
  "memTable tombstone_table = \<lparr>mt_data = [], maxSize = 2\<rparr>
   \<and> map sst_data (ssTables tombstone_table) =
       [[(''k'', \<lparr>val = JNull, expiresAt = None, timestamp = 10\<rparr>),
         (''a'', \<lparr>val = JVal ''1'', expiresAt = Some 60020, timestamp = 20\<rparr>)]]
   \<and> fst (getAllEntries (quiet_env 30 ''b'') tombstone_table) =
       [(''k'', \<lparr>val = JNull, expiresAt = None, timestamp = 10\<rparr>),
        (''a'', \<lparr>val = JVal ''1'', expiresAt = Some 60020, timestamp = 20\<rparr>)]"
  by (simp add: tombstone_table_def scenario_defs engine_defs Let_def)

subsection \<open>C6: delete and put of a tombstone\<close>

text \<open>
  C6 as stated (\<open>delete(key)\<close> leaves the state \<open>put(key, null, null)\<close> leaves, flush
  included) is false: on a fresh engine with \<open>memTableMaxSize = 1\<close> the put flushes the
  tombstone into a table and the delete leaves it in the MemTable.
\<close>

theorem delete_differs_from_put_when_full:
  "snd (delete (quiet_env 10 ''a'') ''k'' (new_LSMTree 1 10 ''./data''))
   \<noteq> snd (put (quiet_env 10 ''a'') ''k'' JNull TNull (new_LSMTree 1 10 ''./data''))"
  by (simp add: scenario_defs engine_defs Let_def)

text \<open>
  C6, amended: \<open>delete(key)\<close> does the insert and the WAL rewrite of
  \<open>put(key, null, null)\<close> and never flushes. It gives the same result and state as that
  put whenever the MemTable does not report full after the insert; it always resolves,
  leaves the list of tables alone, and leaves the MemTable as the insert made it.
\<close>

theorem delete_is_put_without_flush:
  "(\<not> put_full ev k JNull TNull t \<longrightarrow> delete ev k t = put ev k JNull TNull t)
   \<and> fst (delete ev k t) = Resolved
   \<and> ssTables (snd (delete ev k t)) = ssTables t
   \<and> memTable (snd (delete ev k t)) = inserted ev k JNull TNull t
   \<and> Map_get (mt_data (memTable (snd (delete ev k t)))) k
       = Some \<lparr>val = JNull, expiresAt = None, timestamp = clock ev\<rparr>"
  by (simp add: put_unfold delete_def inserted_def put_full_def memtable_put_def Let_def
        update_conv')

text \<open>The amended C6 on a fresh engine with room for 1000 entries, key absent.\<close>

theorem delete_is_put_without_flush_witness:
  "\<not> put_full (quiet_env 10 ''a'') ''k'' JNull TNull (new_LSMTree 1000 10 ''./data'')
   \<and> delete (quiet_env 10 ''a'') ''k'' (new_LSMTree 1000 10 ''./data'')
       = put (quiet_env 10 ''a'') ''k'' JNull TNull (new_LSMTree 1000 10 ''./data'')
   \<and> fst (delete (quiet_env 10 ''a'') ''k'' (new_LSMTree 1000 10 ''./data'')) = Resolved
   \<and> mt_data (memTable (snd (delete (quiet_env 10 ''a'') ''k''
        (new_LSMTree 1000 10 ''./data''))))
       = [(''k'', \<lparr>val = JNull, expiresAt = None, timestamp = 10\<rparr>)]"
  using delete_is_put_without_flush
    [of "quiet_env 10 ''a''" "''k''" "new_LSMTree 1000 10 ''./data''"]
  by (simp add: put_full_def inserted_def scenario_defs engine_defs Let_def)

subsection \<open>C7: the result of a compaction\<close>

text \<open>
  C7: a compaction of more than one table that completes leaves exactly one table, and
  no entry of that table is a tombstone or expired at the clock reading of the
  compaction (expired as the code tests it: a truthy \<open>expiresAt\<close> that the clock has
  passed). It completes whenever no request to the file system is rejected.
\<close>

theorem compact_leaves_one_clean_table:
  assumes "1 < length (ssTables t)"
  shows "((\<forall>rq. \<not> fails ev rq) \<longrightarrow> fst (compact ev t) = Resolved)
       \<and> (fst (compact ev t) = Resolved \<longrightarrow>
            length (ssTables (snd (compact ev t))) = 1
            \<and> (\<forall>s\<in>set (ssTables (snd (compact ev t))).
                 \<forall>(k, e)\<in>set (sst_data s). val e \<noteq> JNull \<and> \<not> expired (clock ev) e))"
proof -
  obtain r1 d1 where del: "delete_old_files ev (ssTables t) (disk t) = (r1, d1)"
    by force
  have kept: "\<forall>(k, e)\<in>set (merge_ssTables (clock ev) (ssTables t) []).
                val e \<noteq> JNull \<and> \<not> expired (clock ev) e"
    using merge_ssTables_kept [of "[]" "clock ev" "ssTables t"]
    by (simp add: live_iff_not_expired)
  have ok: "r1 = Resolved" if "\<forall>rq. \<not> fails ev rq"
    using delete_old_files_resolves [of "ssTables t" ev "disk t"] that del by simp
  show ?thesis
    using assms kept ok
    by (cases r1) (auto simp: compact_unfold del)
qed

text \<open>
  C7 on the two tables holding an entry expired at time 60, a tombstone and a live
  entry, compacted at time 100: the one table left holds the live entry only.
\<close>

theorem compact_leaves_one_clean_table_witness:
  "1 < length (ssTables mixed_tables)
   \<and> map sst_data (ssTables mixed_tables) =
       [[(''x'', \<lparr>val = JVal ''1'', expiresAt = Some 60, timestamp = 10\<rparr>)],
        [(''k'', \<lparr>val = JNull, expiresAt = None, timestamp = 20\<rparr>),
         (''y'', \<lparr>val = JVal ''2'', expiresAt = Some 60030, timestamp = 30\<rparr>)]]
   \<and> fails (quiet_env 100 ''c'') = no_fault
   \<and> fst (compact (quiet_env 100 ''c'') mixed_tables) = Resolved
   \<and> map sst_data (ssTables (snd (compact (quiet_env 100 ''c'') mixed_tables))) =
       [[(''y'', \<lparr>val = JVal ''2'', expiresAt = Some 60030, timestamp = 30\<rparr>)]]"
  using compact_leaves_one_clean_table [of mixed_tables "quiet_env 100 ''c''"]
  by (simp add: mixed_tables_def scenario_defs engine_defs Let_def)

subsection \<open>C8: flush\<close>

text \<open>
  C8: when the MemTable is not empty and neither the write of the new table nor the WAL
  write is rejected, \<open>flush\<close> reaches the state \<open>sealed\<close> (the MemTable's pairs in a
  new table with \<open>createdAt\<close> the clock reading, its file on disk, the table appended to
  the list, the MemTable cleared, the WAL rewritten as empty) and resolves there, or goes
  on from there into \<open>compact\<close> when the list has grown beyond \<open>maxSSTables\<close>. On an
  empty MemTable \<open>flush\<close> resolves and changes nothing.
\<close>

theorem flush_seals_memtable:
  "(mt_data (memTable t) \<noteq> []
    \<and> \<not> fails ev (WriteSSTable (sstable_path (dataDir t) (flush_id ev)))
    \<and> \<not> fails ev WriteWAL \<longrightarrow>
      flush ev t =
        (if maxSSTables t < length (ssTables t) + 1 then compact ev (sealed ev t)
         else (Resolved, sealed ev t)))
   \<and> (mt_data (memTable t) = [] \<longrightarrow> flush ev t = (Resolved, t))"
  by (simp add: flush_unfold sealed_def Let_def saveWAL_def writeFile_wal_def toJSON_def
        memtable_clear_def flushed_table_def flushed_file_def)

text \<open>
  C8 on the engine with one entry in the MemTable, flushed at time 200, and on a fresh
  engine, whose MemTable is empty.
\<close>

theorem flush_seals_memtable_witness:
  "mt_data (memTable expiring_engine) \<noteq> []
   \<and> \<not> fails (quiet_env 200 ''b'')
          (WriteSSTable (sstable_path (dataDir expiring_engine) (flush_id (quiet_env 200 ''b''))))
   \<and> \<not> fails (quiet_env 200 ''b'') WriteWAL
   \<and> flush (quiet_env 200 ''b'') expiring_engine
       = (Resolved, sealed (quiet_env 200 ''b'') expiring_engine)
   \<and> map sst_data (ssTables (snd (flush (quiet_env 200 ''b'') expiring_engine)))
       = [[(''e'', \<lparr>val = JVal ''x'', expiresAt = Some 60, timestamp = 10\<rparr>)]]
   \<and> memTable (snd (flush (quiet_env 200 ''b'') expiring_engine))
       = \<lparr>mt_data = [], maxSize = 1000\<rparr>
   \<and> wal_json (disk (snd (flush (quiet_env 200 ''b'') expiring_engine)))
       = Some \<lparr>wal_timestamp = 200, wal_memTable = []\<rparr>
   \<and> mt_data (memTable (new_LSMTree 1000 10 ''./data'')) = []
   \<and> flush (quiet_env 200 ''b'') (new_LSMTree 1000 10 ''./data'')
       = (Resolved, new_LSMTree 1000 10 ''./data'')"
  using flush_seals_memtable [of expiring_engine "quiet_env 200 ''b''"]
    flush_seals_memtable [of "new_LSMTree 1000 10 ''./data''" "quiet_env 200 ''b''"]
  by (simp add: expiring_engine_def sealed_def scenario_defs engine_defs Let_def)

subsection \<open>C9: the default TTL and a TTL of zero\<close>

text \<open>
  C9: a \<open>put\<close> without a \<open>ttl\<close> argument is the \<open>put\<close> with \<open>ttl = defaultTTL\<close>. A
  \<open>put\<close> of a value other than \<open>null\<close> with \<open>ttl = 0\<close> stores the entry with
  \<open>expiresAt = null\<close>, and a \<open>get\<close> of the key at any clock reading afterwards returns
  that entry, whether the put resolved or not and whether it stayed in the MemTable, was
  flushed or was compacted (the keys of the MemTable, a \<open>Map\<close>, are distinct).
\<close>

theorem put_default_and_zero_ttl:
  "put ev k v Undefined t = put ev k v (TNum (defaultTTL t)) t
   \<and> (v \<noteq> JNull \<and> distinct (map fst (mt_data (memTable t))) \<longrightarrow>
        fst (get ev' k (snd (put ev k v (TNum 0) t)))
          = Some \<lparr>val = v, expiresAt = None, timestamp = clock ev\<rparr>)"
proof (intro conjI impI)
  show "put ev k v Undefined t = put ev k v (TNum (defaultTTL t)) t"
    by (simp add: put_def)
next
  assume a: "v \<noteq> JNull \<and> distinct (map fst (mt_data (memTable t)))"
  define e where "e = \<lparr>val = v, expiresAt = None, timestamp = clock ev\<rparr>"
  define t' where "t' = snd (put ev k v (TNum 0) t)"
  have data: "mt_data (inserted ev k v (TNum 0) t) = AList.update k e (mt_data (memTable t))"
    by (simp add: inserted_data e_def)
  have hit: "map_of (mt_data (inserted ev k v (TNum 0) t)) k = Some e"
    by (simp add: data update_conv')
  have dist: "distinct (map fst (mt_data (inserted ev k v (TNum 0) t)))"
    using a by (simp add: data distinct_update)
  have ne: "\<not> expired now e" "live now e" "val e \<noteq> JNull" for now
    using a by (simp_all add: e_def expired_def live_def)
  have tab: "sstable_get (clock ev') k (put_table ev k v (TNum 0) t) = Some e"
    using hit ne by (simp add: sstable_get_def put_table_def)
  have mrg: "sstable_get (clock ev') k
       (merged_table ev (dataDir t) (ssTables t @ [put_table ev k v (TNum 0) t])) = Some e"
    using merge_entries_last [OF dist hit ne(3) ne(2)] ne(1)
    by (simp add: sstable_get_def merged_table_def merge_ssTables_append put_table_def)
  from put_shape [of ev k v "TNum 0" t]
  have "fst (get ev' k t') = Some e"
    unfolding t'_def [symmetric]
  proof (elim disjE conjE)
    assume "memTable t' = inserted ev k v (TNum 0) t"
    then show ?thesis using get_memtable_hit [of t' k e ev'] hit ne(1) by simp
  next
    assume m: "memTable t' = (inserted ev k v (TNum 0) t)\<lparr>mt_data := []\<rparr>"
      and s: "ssTables t' = ssTables t @ [put_table ev k v (TNum 0) t]"
    show ?thesis using get_memtable_miss [of t' ev' k] m s tab by simp
  next
    assume m: "memTable t' = (inserted ev k v (TNum 0) t)\<lparr>mt_data := []\<rparr>"
      and s: "ssTables t' =
        [merged_table ev (dataDir t) (ssTables t @ [put_table ev k v (TNum 0) t])]"
    show ?thesis using get_memtable_miss [of t' ev' k] m s mrg by simp
  qed
  then show "fst (get ev' k (snd (put ev k v (TNum 0) t)))
          = Some \<lparr>val = v, expiresAt = None, timestamp = clock ev\<rparr>"
    by (simp add: t'_def e_def)
qed

text \<open>
  C9 on the engine with one table, \<open>memTableMaxSize = 1\<close> and \<open>maxSSTables = 1\<close>: the
  put at time 20 flushes and compacts, and the get a year of milliseconds later finds the
  entry.
\<close>

theorem put_default_and_zero_ttl_witness:
  "JVal ''2'' \<noteq> JNull
   \<and> distinct (map fst (mt_data (memTable one_table)))
   \<and> fst (get (quiet_env 31536000000 ''c'') ''y''
        (snd (put (quiet_env 20 ''b'') ''y'' (JVal ''2'') (TNum 0) one_table)))
       = Some \<lparr>val = JVal ''2'', expiresAt = None, timestamp = 20\<rparr>
   \<and> length (ssTables (snd (put (quiet_env 20 ''b'') ''y'' (JVal ''2'') (TNum 0) one_table)))
       = 1
   \<and> map_of (mt_data (memTable (snd (put (quiet_env 20 ''b'') ''z'' (JVal ''3'') Undefined
        (new_LSMTree 1000 10 ''./data''))))) ''z''
       = Some \<lparr>val = JVal ''3'', expiresAt = Some 60020, timestamp = 20\<rparr>"
  using put_default_and_zero_ttl
    [of "quiet_env 20 ''b''" "''y''" "JVal ''2''" one_table "quiet_env 31536000000 ''c''"]
  by (simp add: one_table_def scenario_defs engine_defs Let_def)

subsection \<open>C10: a put of null with a TTL\<close>

text \<open>
  C10 as stated (the tombstone with its expiry is stored, and once it has expired a
  \<open>get\<close> returns an older, still unexpired entry of the key) is false for a put that
  compacts. On the engine whose two tables hold \<open>k = "a"\<close> (no expiry) and, newer,
  \<open>k = "b"\<close> (expiring at time 60), \<open>put("k", null, 50)\<close> at time 30 flushes and
  compacts: the one table left holds \<open>k = "b"\<close> and no tombstone is stored anywhere. A
  \<open>get\<close> at time 40, before the tombstone's expiry at 80, returns \<open>"b"\<close>; a \<open>get\<close>
  at time 100 returns a miss, although the entry \<open>"a"\<close> had no expiry.
\<close>

theorem null_put_compacted_away:
  "map sst_data (ssTables layered_engine) =
     [[(''k'', \<lparr>val = JVal ''a'', expiresAt = None, timestamp = 10\<rparr>)],
      [(''k'', \<lparr>val = JVal ''b'', expiresAt = Some 60, timestamp = 20\<rparr>)]]
   \<and> fst (put (quiet_env 30 ''c'') ''k'' JNull (TNum 50) layered_engine) = Resolved
   \<and> mt_data (memTable (snd (put (quiet_env 30 ''c'') ''k'' JNull (TNum 50) layered_engine)))
       = []
   \<and> map sst_data
        (ssTables (snd (put (quiet_env 30 ''c'') ''k'' JNull (TNum 50) layered_engine)))
       = [[(''k'', \<lparr>val = JVal ''b'', expiresAt = Some 60, timestamp = 20\<rparr>)]]
   \<and> fst (get (quiet_env 40 ''d'') ''k''
        (snd (put (quiet_env 30 ''c'') ''k'' JNull (TNum 50) layered_engine)))
       = Some \<lparr>val = JVal ''b'', expiresAt = Some 60, timestamp = 20\<rparr>
   \<and> fst (get (quiet_env 100 ''d'') ''k''
        (snd (put (quiet_env 30 ''c'') ''k'' JNull (TNum 50) layered_engine)))
       = None"
  by (simp add: layered_engine_def scenario_defs engine_defs Let_def)

text \<open>
  C10, amended: \<open>put(k, null, ttl)\<close> is accepted, and when the put does not reach
  \<open>compact\<close> it stores a tombstone that carries the expiry \<open>now + ttl\<close> (with \<open>ttl\<close>
  the number given, or \<open>defaultTTL\<close> when it is left out): until that time a
  \<open>get(k)\<close> returns the tombstone entry. Once the clock has passed it, \<open>get(k)\<close> skips
  the tombstone and returns the entry of the newest older table that holds an unexpired
  entry for \<open>k\<close>. The put may stay in the MemTable, flush, or fail.
\<close>

theorem expired_null_put_uncovers_older_entry:
  assumes ttl: "ttl_param (defaultTTL t) ttl = Some n" "n \<noteq> 0" "clock ev + n \<noteq> 0"
    and later: "clock ev + n < clock ev'"
    and quiet: "\<not> put_compacts ev k JNull ttl t"
    and older: "ssTables t = older @ s # newer"
      "map_of (sst_data s) k = Some e" "\<not> expired (clock ev') e"
      "\<forall>s'\<in>set newer. sstable_get (clock ev') k s' = None"
  shows "fst (get ev' k (snd (put ev k JNull ttl t))) = Some e
       \<and> (clock ev'' \<le> clock ev + n \<longrightarrow>
            fst (get ev'' k (snd (put ev k JNull ttl t)))
              = Some \<lparr>val = JNull, expiresAt = Some (clock ev + n), timestamp = clock ev\<rparr>)"
proof -
  define tomb where
    "tomb = \<lparr>val = JNull, expiresAt = Some (clock ev + n), timestamp = clock ev\<rparr>"
  define t' where "t' = snd (put ev k JNull ttl t)"
  have data: "mt_data (inserted ev k JNull ttl t) = AList.update k tomb (mt_data (memTable t))"
    using ttl by (simp add: inserted_data tomb_def)
  have hit: "map_of (mt_data (inserted ev k JNull ttl t)) k = Some tomb"
    by (simp add: data update_conv')
  have dead: "expired (clock ev') tomb"
    using ttl later by (simp add: expired_def tomb_def)
  have alive: "\<not> expired (clock ev'') tomb" if "clock ev'' \<le> clock ev + n"
    using that by (simp add: expired_def tomb_def)
  have old: "get_ssTables (clock ev') k (rev (ssTables t)) = Some e"
  proof -
    have "\<forall>s'\<in>set (rev newer). sstable_get (clock ev') k s' = None"
      using older(4) by simp
    then have "get_ssTables (clock ev') k (rev newer @ s # rev older)
        = get_ssTables (clock ev') k (s # rev older)"
      by (rule get_ssTables_skip)
    then show ?thesis
      using older(1,2,3) by (simp add: sstable_get_def)
  qed
  have tab': "sstable_get (clock ev') k (put_table ev k JNull ttl t) = None"
    using hit dead by (simp add: sstable_get_def put_table_def)
  have tab'': "sstable_get (clock ev'') k (put_table ev k JNull ttl t) = Some tomb"
    if "clock ev'' \<le> clock ev + n"
    using hit alive [OF that] by (simp add: sstable_get_def put_table_def)
  from put_without_compaction [OF quiet]
  have "fst (get ev' k t') = Some e
       \<and> (clock ev'' \<le> clock ev + n \<longrightarrow> fst (get ev'' k t') = Some tomb)"
    unfolding t'_def [symmetric]
  proof (elim disjE conjE)
    assume m: "memTable t' = inserted ev k JNull ttl t" and s: "ssTables t' = ssTables t"
    have "fst (get ev' k t') = Some e"
      using get_memtable_expired [of t' k tomb ev'] hit dead m s old by simp
    moreover have "fst (get ev'' k t') = Some tomb" if "clock ev'' \<le> clock ev + n"
      using get_memtable_hit [of t' k tomb ev''] hit alive [OF that] m by simp
    ultimately show ?thesis by simp
  next
    assume m: "memTable t' = (inserted ev k JNull ttl t)\<lparr>mt_data := []\<rparr>"
      and s: "ssTables t' = ssTables t @ [put_table ev k JNull ttl t]"
    have "fst (get ev' k t') = Some e"
      using get_memtable_miss [of t' ev' k] m s tab' old by simp
    moreover have "fst (get ev'' k t') = Some tomb" if "clock ev'' \<le> clock ev + n"
      using get_memtable_miss [of t' ev'' k] m s tab'' [OF that] by simp
    ultimately show ?thesis by simp
  qed
  then show ?thesis by (simp add: t'_def tomb_def)
qed

text \<open>
  The amended C10 twice. On the engine whose one table holds \<open>k = "old"\<close> (written at
  time 10, TTL one minute) and whose MemTable takes one entry: \<open>put("k", null, 50)\<close> at
  time 100 flushes without compacting; a get at time 120 returns the tombstone, a get at
  time 200 the entry \<open>"old"\<close> again. On the engine that already holds \<open>maxSSTables\<close>
  tables and whose MemTable takes 1000 entries: \<open>put("k", null)\<close> at time 100 takes the
  default TTL and stays in the MemTable; a get at time 200 returns the tombstone, a get at
  time 60105 the entry \<open>"old"\<close> again.
\<close>

theorem expired_null_put_uncovers_older_entry_witness:
  "ttl_param (defaultTTL shadowed_engine) (TNum 50) = Some 50
   \<and> (50::int) \<noteq> 0
   \<and> clock (quiet_env 100 ''b'') + 50 \<noteq> 0
   \<and> clock (quiet_env 100 ''b'') + 50 < clock (quiet_env 200 ''c'')
   \<and> \<not> put_compacts (quiet_env 100 ''b'') ''k'' JNull (TNum 50) shadowed_engine
   \<and> ssTables shadowed_engine = [] @ hd (ssTables shadowed_engine) # []
   \<and> map_of (sst_data (hd (ssTables shadowed_engine))) ''k''
       = Some \<lparr>val = JVal ''old'', expiresAt = Some 60010, timestamp = 10\<rparr>
   \<and> \<not> expired (clock (quiet_env 200 ''c''))
          \<lparr>val = JVal ''old'', expiresAt = Some 60010, timestamp = 10\<rparr>
   \<and> clock (quiet_env 120 ''c'') \<le> clock (quiet_env 100 ''b'') + 50
   \<and> fst (get (quiet_env 200 ''c'') ''k''
        (snd (put (quiet_env 100 ''b'') ''k'' JNull (TNum 50) shadowed_engine)))
       = Some \<lparr>val = JVal ''old'', expiresAt = Some 60010, timestamp = 10\<rparr>
   \<and> fst (get (quiet_env 120 ''c'') ''k''
        (snd (put (quiet_env 100 ''b'') ''k'' JNull (TNum 50) shadowed_engine)))
       = Some \<lparr>val = JNull, expiresAt = Some 150, timestamp = 100\<rparr>
   \<and> ttl_param (defaultTTL threshold_engine) Undefined = Some 60000
   \<and> (60000::int) \<noteq> 0
   \<and> clock (quiet_env 100 ''b'') + 60000 \<noteq> 0
   \<and> clock (quiet_env 100 ''b'') + 60000 < clock (quiet_env 60105 ''c'')
   \<and> \<not> length (ssTables threshold_engine) < maxSSTables threshold_engine
   \<and> \<not> put_compacts (quiet_env 100 ''b'') ''k'' JNull Undefined threshold_engine
   \<and> ssTables threshold_engine = [] @ hd (ssTables threshold_engine) # []
   \<and> map_of (sst_data (hd (ssTables threshold_engine))) ''k''
       = Some \<lparr>val = JVal ''old'', expiresAt = None, timestamp = 10\<rparr>
   \<and> \<not> expired (clock (quiet_env 60105 ''c''))
          \<lparr>val = JVal ''old'', expiresAt = None, timestamp = 10\<rparr>
   \<and> clock (quiet_env 200 ''c'') \<le> clock (quiet_env 100 ''b'') + 60000
   \<and> fst (get (quiet_env 60105 ''c'') ''k''
        (snd (put (quiet_env 100 ''b'') ''k'' JNull Undefined threshold_engine)))
       = Some \<lparr>val = JVal ''old'', expiresAt = None, timestamp = 10\<rparr>
   \<and> fst (get (quiet_env 200 ''c'') ''k''
        (snd (put (quiet_env 100 ''b'') ''k'' JNull Undefined threshold_engine)))
       = Some \<lparr>val = JNull, expiresAt = Some 60100, timestamp = 100\<rparr>"
  using expired_null_put_uncovers_older_entry
    [of shadowed_engine "TNum 50" 50 "quiet_env 100 ''b''" "quiet_env 200 ''c''" "''k''"
        "[]" "hd (ssTables shadowed_engine)" "[]"
        "\<lparr>val = JVal ''old'', expiresAt = Some 60010, timestamp = 10\<rparr>" "quiet_env 120 ''c''"]
    expired_null_put_uncovers_older_entry
    [of threshold_engine Undefined 60000 "quiet_env 100 ''b''" "quiet_env 60105 ''c''" "''k''"
        "[]" "hd (ssTables threshold_engine)" "[]"
        "\<lparr>val = JVal ''old'', expiresAt = None, timestamp = 10\<rparr>" "quiet_env 200 ''c''"]
  by (simp add: shadowed_engine_def threshold_engine_def put_compacts_def put_full_def
        scenario_defs engine_defs Let_def)

end
